theory Spec2Isabelle
  imports Main "HOL-Library.Char_ord" "HOL-Library.List_Lexorder" "HOL-Library.Product_Lexorder"
begin

section \<open>Python values\<close>

text \<open>
  The objects that \<^verbatim>\<open>esal/events.py\<close> handles as keys, field values, match criteria and
  predicate results: \<^verbatim>\<open>None\<close>, booleans, integers, strings, the wildcard sentinel
  \<^verbatim>\<open>general.Any\<close> and function objects. A function object is identified by its address;
  what it returns (or raises) when called is kept in a separate environment, so that two
  references to the same function are the same value. Floats, slices and instances of
  user classes are outside this universe.
\<close>

text \<open>Modelled from the spec: the wildcard \<^verbatim>\<open>general.Any\<close> is defined in
  \<^verbatim>\<open>esal/general.py\<close>, which is not among the sources. The specification calls it the
  distinguished WILDCARD value; it is the constructor \<open>PAny\<close>, a value of its own that
  is equal only to itself and is not callable.\<close>

datatype pyval =
    PNone
  | PBool bool
  | PInt int
  | PStr string
  | PAny
  | PFun nat

datatype pyerr = IndexError | KeyError | TypeError | AttributeError

text \<open>The environment of function objects: address, argument, outcome of the call.\<close>

type_synonym fenv = "nat \<Rightarrow> pyval \<Rightarrow> pyerr + pyval"

text \<open>\<^verbatim>\<open>isinstance(x, int)\<close>: \<^verbatim>\<open>bool\<close> is a subclass of \<^verbatim>\<open>int\<close>, with
  \<^verbatim>\<open>True == 1\<close> and \<^verbatim>\<open>False == 0\<close>.\<close>

fun isinstance_int :: "pyval \<Rightarrow> bool" where
  "isinstance_int (PInt i) = True"
| "isinstance_int (PBool b) = True"
| "isinstance_int x = False"

fun isinstance_str :: "pyval \<Rightarrow> bool" where
  "isinstance_str (PStr s) = True"
| "isinstance_str x = False"

text \<open>The integer an instance of \<^verbatim>\<open>int\<close> stands for (\<^verbatim>\<open>operator.index\<close>); 0 elsewhere,
  where no caller reads it.\<close>

fun int_of :: "pyval \<Rightarrow> int" where
  "int_of (PInt i) = i"
| "int_of (PBool b) = (if b then 1 else 0)"
| "int_of x = 0"

text \<open>\<^verbatim>\<open>a == b\<close> on these values, all of built-in types: numbers compare by value
  across \<^verbatim>\<open>bool\<close> and \<^verbatim>\<open>int\<close>, strings by content, \<^verbatim>\<open>None\<close>, the sentinel and
  function objects by identity; values of unrelated types are unequal. On these values
  \<^verbatim>\<open>==\<close> never raises and yields a \<^verbatim>\<open>bool\<close>. An \<^verbatim>\<open>__eq__\<close> of a user class may
  return any object or raise; the section on matching under an arbitrary \<^verbatim>\<open>==\<close> below
  covers that.\<close>

fun py_eq :: "pyval \<Rightarrow> pyval \<Rightarrow> bool" where
  "py_eq PNone PNone = True"
| "py_eq (PStr s) (PStr t) = (s = t)"
| "py_eq PAny PAny = True"
| "py_eq (PFun a) (PFun b) = (a = b)"
| "py_eq x y = (isinstance_int x \<and> isinstance_int y \<and> int_of x = int_of y)"

text \<open>Truth value testing (\<^verbatim>\<open>bool(x)\<close>).\<close>

fun truthy :: "pyval \<Rightarrow> bool" where
  "truthy PNone = False"
| "truthy (PBool b) = b"
| "truthy (PInt i) = (i \<noteq> 0)"
| "truthy (PStr s) = (s \<noteq> [])"
| "truthy PAny = True"
| "truthy (PFun a) = True"

fun callable :: "pyval \<Rightarrow> bool" where
  "callable (PFun a) = True"
| "callable x = False"

text \<open>Calling an object with one argument: a function object answers from the
  environment, anything else raises \<^verbatim>\<open>TypeError\<close> (not callable).\<close>

fun call :: "fenv \<Rightarrow> pyval \<Rightarrow> pyval \<Rightarrow> pyerr + pyval" where
  "call h (PFun a) x = h a x"
| "call h f x = Inl TypeError"

text \<open>\<^verbatim>\<open>a or b\<close> and \<^verbatim>\<open>a and b\<close>: the value of the first operand decides whether the
  second is evaluated, and the result is one of the operands, not its truth value. An
  exception raised by the first operand propagates.\<close>

definition py_or :: "pyerr + pyval \<Rightarrow> pyerr + pyval \<Rightarrow> pyerr + pyval" where
  "py_or a b = (case a of Inl e \<Rightarrow> Inl e | Inr x \<Rightarrow> if truthy x then Inr x else b)"

definition py_and :: "pyerr + pyval \<Rightarrow> pyerr + pyval \<Rightarrow> pyerr + pyval" where
  "py_and a b = (case a of Inl e \<Rightarrow> Inl e | Inr x \<Rightarrow> if truthy x then b else Inr x)"

text \<open>\<^verbatim>\<open>t[key]\<close> on a tuple: an instance of \<^verbatim>\<open>int\<close> indexes it, a negative index counts
  from the end, an index outside \<^verbatim>\<open>[-len, len)\<close> raises \<^verbatim>\<open>IndexError\<close>, and a key that
  is no integer raises \<^verbatim>\<open>TypeError\<close>.\<close>

definition tuple_getitem :: "'a list \<Rightarrow> pyval \<Rightarrow> pyerr + 'a" where
  "tuple_getitem t key =
     (if isinstance_int key then
        (let i = int_of key; n = int (length t); j = (if i < 0 then i + n else i)
         in if j < 0 \<or> n \<le> j then Inl IndexError else Inr (t ! nat j))
      else Inl TypeError)"

text \<open>\<^verbatim>\<open>d[key]\<close> on a dict whose keys are strings: a key that is no string equals none of
  them.\<close>

definition dict_getitem :: "(string \<rightharpoonup> 'v) \<Rightarrow> pyval \<Rightarrow> pyerr + 'v" where
  "dict_getitem d key =
     (case key of
        PStr s \<Rightarrow> (case d s of None \<Rightarrow> Inl KeyError | Some v \<Rightarrow> Inr v)
      | _ \<Rightarrow> Inl KeyError)"

section \<open>Header\<close>

record header =
  idxs_to_names :: "string list"
  names_to_idxs :: "string \<rightharpoonup> int"

text \<open>\<^verbatim>\<open>dict((name, index) for index, name in enumerate(names))\<close>: the pairs are inserted
  in order, each insertion overwriting an earlier entry of the same name.\<close>

definition dict_of_pairs :: "(string \<times> int) list \<Rightarrow> (string \<rightharpoonup> int)" where
  "dict_of_pairs ps = fold (\<lambda>(name, index) d. d(name \<mapsto> index)) ps Map.empty"

definition Header_init :: "string list \<Rightarrow> header" where
  "Header_init names =
     \<lparr> idxs_to_names = names,
       names_to_idxs =
         dict_of_pairs (map (\<lambda>(index, name). (name, int index)) (enumerate 0 names)) \<rparr>"

definition Header_len :: "header \<Rightarrow> int" where
  "Header_len self = int (length (idxs_to_names self))"

definition Header_getitem :: "header \<Rightarrow> pyval \<Rightarrow> pyerr + pyval" where
  "Header_getitem self key =
     (if isinstance_int key then
        (if int_of key < 0 \<or> int_of key \<ge> int (length (idxs_to_names self))
         then Inl IndexError
         else Inr key)
      else if isinstance_str key then
        map_sum id PInt (dict_getitem (names_to_idxs self) key)
      else Inl KeyError)"

definition name_of :: "header \<Rightarrow> pyval \<Rightarrow> pyerr + string" where
  "name_of self index = tuple_getitem (idxs_to_names self) index"

definition index_of :: "header \<Rightarrow> pyval \<Rightarrow> pyerr + int" where
  "index_of self name = dict_getitem (names_to_idxs self) name"

definition names :: "header \<Rightarrow> string list" where
  "names self = idxs_to_names self"

text \<open>Sequencing of calls that may raise: the second runs on the value the first
  returned.\<close>

definition and_then :: "pyerr + 'a \<Rightarrow> ('a \<Rightarrow> pyerr + 'b) \<Rightarrow> pyerr + 'b" where
  "and_then r f = (case r of Inl e \<Rightarrow> Inl e | Inr x \<Rightarrow> f x)"

section \<open>Matching a value against a criterion\<close>

definition valuepred_matches_value :: "fenv \<Rightarrow> pyval \<Rightarrow> pyval \<Rightarrow> pyerr + pyval" where
  "valuepred_matches_value h valuepred v =
     py_or (Inr (PBool (valuepred = PAny)))
       (py_or (Inr (PBool (py_eq valuepred v)))
          (py_and (Inr (PBool (callable valuepred))) (call h valuepred v)))"

section \<open>Event\<close>

definition EVENT_FIELD_NAMES :: "string list" where
  "EVENT_FIELD_NAMES = [''seq'', ''time'', ''dura'', ''ev'', ''val'']"

record event =
  seq :: pyval
  time :: pyval
  dura :: pyval
  ev :: pyval
  val :: pyval

definition Event_header :: header where
  "Event_header = Header_init EVENT_FIELD_NAMES"

text \<open>\<^verbatim>\<open>__new__\<close>: the tuple \<^verbatim>\<open>(seq, time, dura, ev, val)\<close>; a parameter left out is
  \<^verbatim>\<open>None\<close>.\<close>

definition Event_new :: "pyval \<Rightarrow> pyval \<Rightarrow> pyval \<Rightarrow> pyval \<Rightarrow> pyval \<Rightarrow> event" where
  "Event_new seq' time' dura' ev' val' =
     \<lparr> seq = seq', time = time', dura = dura', ev = ev', val = val' \<rparr>"

text \<open>The underlying tuple, which positional access reads.\<close>

definition astuple :: "event \<Rightarrow> pyval list" where
  "astuple self = [seq self, time self, dura self, ev self, val self]"

text \<open>The attributes that \<^verbatim>\<open>namedtuple\<close> generates for the five fields, by name; the other
  attributes of the class (\<^verbatim>\<open>header\<close> and the methods) are not fields and are left out.\<close>

definition getattr_field :: "event \<Rightarrow> string \<Rightarrow> pyerr + pyval" where
  "getattr_field self name =
     (if name = ''seq'' then Inr (seq self)
      else if name = ''time'' then Inr (time self)
      else if name = ''dura'' then Inr (dura self)
      else if name = ''ev'' then Inr (ev self)
      else if name = ''val'' then Inr (val self)
      else Inl AttributeError)"

text \<open>\<^verbatim>\<open>__getitem__\<close>: an integer key goes to the tuple, a string key is translated by
  the header and looked up again. Slice keys are outside the value universe.\<close>

function Event_getitem :: "event \<Rightarrow> pyval \<Rightarrow> pyerr + pyval" where
  "Event_getitem self key =
     (if isinstance_int key then tuple_getitem (astuple self) key
      else if isinstance_str key then
        (case index_of Event_header key of
           Inl e \<Rightarrow> Inl e
         | Inr i \<Rightarrow> Event_getitem self (PInt i))
      else Inl KeyError)"
  by pat_completeness auto
termination
  by (relation "measure (\<lambda>(self, key). if isinstance_int key then 0 else 1)") auto

declare Event_getitem.simps [simp del]

text \<open>The \<^verbatim>\<open>header\<close> property: the one header shared by all events.\<close>

definition header_of :: "event \<Rightarrow> header" where
  "header_of self = Event_header"

text \<open>\<^verbatim>\<open>matches\<close>: the five tests in the order \<^verbatim>\<open>ev, time, val, dura, seq\<close>, chained
  with \<^verbatim>\<open>and\<close>.\<close>

definition matches ::
  "fenv \<Rightarrow> event \<Rightarrow> pyval \<Rightarrow> pyval \<Rightarrow> pyval \<Rightarrow> pyval \<Rightarrow> pyval \<Rightarrow> pyerr + pyval" where
  "matches h self seq' time' dura' ev' val' =
     py_and (valuepred_matches_value h ev' (ev self))
       (py_and (valuepred_matches_value h time' (time self))
          (py_and (valuepred_matches_value h val' (val self))
             (py_and (valuepred_matches_value h dura' (dura self))
                (valuepred_matches_value h seq' (seq self)))))"

section \<open>Sort key\<close>

text \<open>\<^verbatim>\<open>Event.sort_key\<close> returns \<^verbatim>\<open>general.iterable_sort_key(self)\<close>. The module
  \<^verbatim>\<open>esal/general.py\<close> is not among the sources, so the two functions below follow the
  specification's description of the key.\<close>

type_synonym canon = "nat \<times> int \<times> string"

text \<open>Modelled from the spec: the per-value canonicalisation of \<^verbatim>\<open>esal/general.py\<close>, which
  makes absent and heterogeneous values mutually orderable: a tag that puts the absent
  value first and separates the types, then a payload that is comparable within the
  type.\<close>

fun universal_sort_key :: "pyval \<Rightarrow> canon" where
  "universal_sort_key PNone = (0, 0, [])"
| "universal_sort_key (PBool b) = (1, int_of (PBool b), [])"
| "universal_sort_key (PInt i) = (1, i, [])"
| "universal_sort_key (PStr s) = (2, 0, s)"
| "universal_sort_key PAny = (3, 0, [])"
| "universal_sort_key (PFun a) = (4, int a, [])"

text \<open>Modelled from the spec: \<^verbatim>\<open>general.iterable_sort_key\<close>, which maps each value of the
  iterable, in order, through the canonicalisation; the keys are compared element by
  element.\<close>

definition iterable_sort_key :: "pyval list \<Rightarrow> canon list" where
  "iterable_sort_key xs = map universal_sort_key xs"

definition Event_sort_key :: "event \<Rightarrow> canon list" where
  "Event_sort_key self = iterable_sort_key (astuple self)"

text \<open>\<^verbatim>\<open>sorted(events, key=Event.sort_key)\<close>: a stable sort by key.\<close>

definition sorted_by_sort_key :: "event list \<Rightarrow> event list" where
  "sorted_by_sort_key es = sort_key Event_sort_key es"

section \<open>Reading results\<close>

text \<open>A call returned (did not raise) and its value is true in a boolean context.\<close>

fun returns_truthy :: "pyerr + pyval \<Rightarrow> bool" where
  "returns_truthy (Inr x) = truthy x"
| "returns_truthy (Inl e) = False"


text \<open>A criterion is satisfied by a field value, as \<^verbatim>\<open>_valuepred_matches_value\<close> decides
  it: it is the wildcard, or it equals the value, or it is callable and its call on the
  value returns a true value.\<close>

definition satisfied :: "fenv \<Rightarrow> pyval \<Rightarrow> pyval \<Rightarrow> bool" where
  "satisfied h c v =
     (c = PAny \<or> py_eq c v \<or> (callable c \<and> returns_truthy (call h c v)))"

text \<open>The same, read off the three kinds of criterion the specification lists: the
  wildcard is always satisfied, a predicate (a callable) is satisfied iff its call on the
  value returns true, a plain value iff it equals the field.\<close>

definition satisfied_by_kind :: "fenv \<Rightarrow> pyval \<Rightarrow> pyval \<Rightarrow> bool" where
  "satisfied_by_kind h c v =
     (if c = PAny then True
      else if callable c then returns_truthy (call h c v)
      else py_eq c v)"

text \<open>The kinds again, with the one change the code forces: a callable criterion that
  equals the field is satisfied without being called.\<close>

definition satisfied_by_kind_eq_first :: "fenv \<Rightarrow> pyval \<Rightarrow> pyval \<Rightarrow> bool" where
  "satisfied_by_kind_eq_first h c v =
     (if c = PAny then True
      else if callable c then py_eq c v \<or> returns_truthy (call h c v)
      else py_eq c v)"

section \<open>Matching under an arbitrary equality\<close>

text \<open>The outcome of \<^verbatim>\<open>a == b\<close> as a parameter: what the \<^verbatim>\<open>__eq__\<close> methods of the two
  objects make of the comparison, any value or an exception.\<close>

type_synonym eqenv = "pyval \<Rightarrow> pyval \<Rightarrow> pyerr + pyval"


text \<open>\<^verbatim>\<open>_valuepred_matches_value\<close> with the result of \<^verbatim>\<open>valuepred == value\<close> taken from
  the parameter: it is an operand of \<^verbatim>\<open>or\<close> and is passed on as it is, without
  conversion to \<^verbatim>\<open>bool\<close>.\<close>

definition valuepred_matches_value_with ::
  "eqenv \<Rightarrow> fenv \<Rightarrow> pyval \<Rightarrow> pyval \<Rightarrow> pyerr + pyval" where
  "valuepred_matches_value_with eq h valuepred v =
     py_or (Inr (PBool (valuepred = PAny)))
       (py_or (eq valuepred v)
          (py_and (Inr (PBool (callable valuepred))) (call h valuepred v)))"

text \<open>\<^verbatim>\<open>matches\<close> over it, the five tests in the same order.\<close>

definition matches_with ::
  "eqenv \<Rightarrow> fenv \<Rightarrow> event \<Rightarrow> pyval \<Rightarrow> pyval \<Rightarrow> pyval \<Rightarrow> pyval \<Rightarrow> pyval \<Rightarrow> pyerr + pyval" where
  "matches_with eq h self seq' time' dura' ev' val' =
     py_and (valuepred_matches_value_with eq h ev' (ev self))
       (py_and (valuepred_matches_value_with eq h time' (time self))
          (py_and (valuepred_matches_value_with eq h val' (val self))
             (py_and (valuepred_matches_value_with eq h dura' (dura self))
                (valuepred_matches_value_with eq h seq' (seq self)))))"



text \<open>Environments for the examples: every function returns the same value.\<close>

definition const_env :: "pyval \<Rightarrow> fenv" where
  "const_env r = (\<lambda>a x. Inr r)"

text \<open>Every function raises.\<close>

definition raising_env :: fenv where
  "raising_env = (\<lambda>a x. Inl TypeError)"

section \<open>The header's dictionary\<close>

lemma dict_of_pairs_snoc:
  "dict_of_pairs (ps @ [(name, index)]) = (dict_of_pairs ps)(name \<mapsto> index)"
  by (simp add: dict_of_pairs_def)

lemma names_to_idxs_snoc:
  "names_to_idxs (Header_init (xs @ [x])) = (names_to_idxs (Header_init xs))(x \<mapsto> int (length xs))"
  by (simp add: Header_init_def enumerate_append_eq dict_of_pairs_snoc)

lemma names_to_idxs_Nil: "names_to_idxs (Header_init []) = Map.empty"
  by (simp add: Header_init_def dict_of_pairs_def)

lemma idxs_to_names_init: "idxs_to_names (Header_init xs) = xs"
  by (simp add: Header_init_def)

lemma names_to_idxs_absent:
  "x \<notin> set xs \<Longrightarrow> names_to_idxs (Header_init xs) x = None"
  by (induction xs rule: rev_induct) (simp_all add: names_to_idxs_Nil names_to_idxs_snoc)

lemma names_to_idxs_last:
  "i < length xs \<Longrightarrow> (\<forall>j<length xs. xs ! j = xs ! i \<longrightarrow> j \<le> i)
     \<Longrightarrow> names_to_idxs (Header_init xs) (xs ! i) = Some (int i)"
proof (induction xs rule: rev_induct)
  case Nil
  then show ?case by simp
next
  case (snoc x xs)
  show ?case
  proof (cases "i = length xs")
    case True
    then show ?thesis by (simp add: names_to_idxs_snoc)
  next
    case False
    with snoc.prems(1) have i: "i < length xs" by simp
    have "(xs @ [x]) ! length xs = (xs @ [x]) ! i \<longrightarrow> length xs \<le> i"
      using snoc.prems(2) by simp
    with i have neq: "x \<noteq> xs ! i" by (auto simp: nth_append)
    have "\<forall>j<length xs. xs ! j = xs ! i \<longrightarrow> j \<le> i"
    proof (intro allI impI)
      fix j assume "j < length xs" "xs ! j = xs ! i"
      with snoc.prems(2) i show "j \<le> i"
        by (metis length_append_singleton less_Suc_eq nth_append)
    qed
    with snoc.IH i have "names_to_idxs (Header_init xs) (xs ! i) = Some (int i)" by simp
    with neq i show ?thesis by (simp add: names_to_idxs_snoc nth_append)
  qed
qed

lemma names_to_idxs_present:
  "x \<in> set xs \<Longrightarrow> \<exists>i<length xs. xs ! i = x \<and> names_to_idxs (Header_init xs) x = Some (int i)"
proof (induction xs rule: rev_induct)
  case Nil
  then show ?case by simp
next
  case (snoc y ys)
  show ?case
  proof (cases "x = y")
    case True
    then show ?thesis by (auto simp: names_to_idxs_snoc intro!: exI[of _ "length ys"])
  next
    case False
    with snoc.prems have "x \<in> set ys" by simp
    with snoc.IH obtain i where "i < length ys" "ys ! i = x"
      "names_to_idxs (Header_init ys) x = Some (int i)" by blast
    with False show ?thesis
      by (auto simp: names_to_idxs_snoc nth_append intro!: exI[of _ i])
  qed
qed

lemma names_to_idxs_distinct:
  "distinct xs \<Longrightarrow> i < length xs \<Longrightarrow> names_to_idxs (Header_init xs) (xs ! i) = Some (int i)"
  by (rule names_to_idxs_last) (auto simp: nth_eq_iff_index_eq)

lemma dom_names_to_idxs: "dom (names_to_idxs (Header_init xs)) = set xs"
proof (rule set_eqI)
  fix x
  show "x \<in> dom (names_to_idxs (Header_init xs)) \<longleftrightarrow> x \<in> set xs"
  proof (cases "x \<in> set xs")
    case True
    then show ?thesis using names_to_idxs_present [of x xs] by auto
  next
    case False
    then show ?thesis by (simp add: names_to_idxs_absent domIff)
  qed
qed

lemma name_of_nat: "i < length xs \<Longrightarrow> name_of (Header_init xs) (PInt (int i)) = Inr (xs ! i)"
  by (simp add: name_of_def tuple_getitem_def idxs_to_names_init)

section \<open>Claims about Header\<close>

text \<open>
  Claim C3. For a header built from distinct names of length \<open>N\<close>: for every \<open>i\<close> in
  \<open>[0, N)\<close>, resolving the name at \<open>i\<close> (by \<^verbatim>\<open>__getitem__\<close> and by \<^verbatim>\<open>index_of\<close>) gives
  \<open>i\<close> back, and for every name of the header, the name at its index is that name.
\<close>

theorem Header_round_trip:
  assumes "distinct ns"
  shows "(\<forall>i<length ns.
            and_then (name_of (Header_init ns) (PInt (int i)))
              (\<lambda>nm. Header_getitem (Header_init ns) (PStr nm)) = Inr (PInt (int i)) \<and>
            and_then (name_of (Header_init ns) (PInt (int i)))
              (\<lambda>nm. index_of (Header_init ns) (PStr nm)) = Inr (int i)) \<and>
         (\<forall>nm\<in>set ns.
            and_then (index_of (Header_init ns) (PStr nm))
              (\<lambda>i. name_of (Header_init ns) (PInt i)) = Inr nm)"
proof (intro conjI allI impI ballI)
  fix i assume i: "i < length ns"
  with assms have m: "names_to_idxs (Header_init ns) (ns ! i) = Some (int i)"
    by (rule names_to_idxs_distinct)
  from i m show "and_then (name_of (Header_init ns) (PInt (int i)))
      (\<lambda>nm. Header_getitem (Header_init ns) (PStr nm)) = Inr (PInt (int i))"
    by (simp add: name_of_nat and_then_def Header_getitem_def dict_getitem_def)
  from i m show "and_then (name_of (Header_init ns) (PInt (int i)))
      (\<lambda>nm. index_of (Header_init ns) (PStr nm)) = Inr (int i)"
    by (simp add: name_of_nat and_then_def index_of_def dict_getitem_def)
next
  fix nm assume "nm \<in> set ns"
  then obtain i where "i < length ns" "ns ! i = nm"
    "names_to_idxs (Header_init ns) nm = Some (int i)"
    using names_to_idxs_present by blast
  then show "and_then (index_of (Header_init ns) (PStr nm))
      (\<lambda>i. name_of (Header_init ns) (PInt i)) = Inr nm"
    by (simp add: and_then_def index_of_def dict_getitem_def name_of_nat)
qed

theorem Header_round_trip_witness:
  "distinct [''seq'', ''time'', ''dura'', ''ev'', ''val''] \<and>
   and_then (name_of (Header_init [''seq'', ''time'', ''dura'', ''ev'', ''val'']) (PInt 3))
     (\<lambda>nm. Header_getitem (Header_init [''seq'', ''time'', ''dura'', ''ev'', ''val'']) (PStr nm))
     = Inr (PInt 3) \<and>
   and_then (index_of (Header_init [''seq'', ''time'', ''dura'', ''ev'', ''val'']) (PStr ''dura''))
     (\<lambda>i. name_of (Header_init [''seq'', ''time'', ''dura'', ''ev'', ''val'']) (PInt i))
     = Inr ''dura''"
proof -
  have d: "distinct [''seq'', ''time'', ''dura'', ''ev'', ''val'']" by simp
  note t = Header_round_trip [OF d]
  have a: "(3::nat) < length [''seq'', ''time'', ''dura'', ''ev'', ''val'']" by simp
  have b: "''dura'' \<in> set [''seq'', ''time'', ''dura'', ''ev'', ''val'']" by simp
  from t [THEN conjunct1, rule_format, OF a] t [THEN conjunct2, rule_format, OF b] d
  show ?thesis by simp
qed

text \<open>
  Claim C4. What \<^verbatim>\<open>Header.__getitem__\<close> (resolve) does, by the type of the key, for a
  header of length \<open>N\<close>: an integer key (an instance of \<^verbatim>\<open>int\<close>) is returned unchanged
  exactly when \<open>0 \<le> key < N\<close> and raises \<^verbatim>\<open>IndexError\<close> otherwise, so the keys \<open>N\<close> and
  \<open>-1\<close> raise \<^verbatim>\<open>IndexError\<close>; a string key that is a name of the header gives its
  mapped index, which is a position of that name, and one that is no name of the header
  raises \<^verbatim>\<open>KeyError\<close>; a key of any other type raises \<^verbatim>\<open>KeyError\<close>.
\<close>

theorem Header_getitem_by_key_type:
  "(isinstance_int key \<longrightarrow>
      Header_getitem (Header_init ns) key =
        (if 0 \<le> int_of key \<and> int_of key < Header_len (Header_init ns)
         then Inr key else Inl IndexError)) \<and>
   Header_getitem (Header_init ns) (PInt (Header_len (Header_init ns))) = Inl IndexError \<and>
   Header_getitem (Header_init ns) (PInt (- 1)) = Inl IndexError \<and>
   (s \<in> set ns \<longrightarrow>
      (\<exists>i. Header_getitem (Header_init ns) (PStr s) = Inr (PInt i) \<and>
           names_to_idxs (Header_init ns) s = Some i \<and>
           0 \<le> i \<and> i < Header_len (Header_init ns) \<and> ns ! nat i = s)) \<and>
   (s \<notin> set ns \<longrightarrow> Header_getitem (Header_init ns) (PStr s) = Inl KeyError) \<and>
   (\<not> isinstance_int key \<and> \<not> isinstance_str key \<longrightarrow>
      Header_getitem (Header_init ns) key = Inl KeyError)"
proof (intro conjI impI)
  assume "isinstance_int key"
  then show "Header_getitem (Header_init ns) key =
        (if 0 \<le> int_of key \<and> int_of key < Header_len (Header_init ns)
         then Inr key else Inl IndexError)"
    by (auto simp: Header_getitem_def Header_len_def idxs_to_names_init)
next
  show "Header_getitem (Header_init ns) (PInt (Header_len (Header_init ns))) = Inl IndexError"
    by (simp add: Header_getitem_def Header_len_def idxs_to_names_init)
next
  show "Header_getitem (Header_init ns) (PInt (- 1)) = Inl IndexError"
    by (simp add: Header_getitem_def)
next
  assume "s \<in> set ns"
  then obtain i where i: "i < length ns" "ns ! i = s"
    "names_to_idxs (Header_init ns) s = Some (int i)"
    using names_to_idxs_present by blast
  then have "Header_getitem (Header_init ns) (PStr s) = Inr (PInt (int i)) \<and>
           names_to_idxs (Header_init ns) s = Some (int i) \<and>
           0 \<le> int i \<and> int i < Header_len (Header_init ns) \<and> ns ! nat (int i) = s"
    by (simp add: Header_getitem_def dict_getitem_def Header_len_def idxs_to_names_init)
  then show "\<exists>i. Header_getitem (Header_init ns) (PStr s) = Inr (PInt i) \<and>
           names_to_idxs (Header_init ns) s = Some i \<and>
           0 \<le> i \<and> i < Header_len (Header_init ns) \<and> ns ! nat i = s"
    by (rule exI)
next
  assume "s \<notin> set ns"
  then show "Header_getitem (Header_init ns) (PStr s) = Inl KeyError"
    by (simp add: Header_getitem_def dict_getitem_def names_to_idxs_absent)
next
  assume "\<not> isinstance_int key \<and> \<not> isinstance_str key"
  then show "Header_getitem (Header_init ns) key = Inl KeyError"
    by (simp add: Header_getitem_def)
qed

text \<open>The cases of C4 on the header of \<^verbatim>\<open>Event\<close>.\<close>

theorem Header_getitem_by_key_type_witness:
  "Header_getitem (Header_init [''seq'', ''time'', ''dura'', ''ev'', ''val'']) (PInt 3) = Inr (PInt 3) \<and>
   Header_getitem (Header_init [''seq'', ''time'', ''dura'', ''ev'', ''val'']) (PInt 5) = Inl IndexError \<and>
   Header_getitem (Header_init [''seq'', ''time'', ''dura'', ''ev'', ''val'']) (PInt (- 1)) = Inl IndexError \<and>
   Header_getitem (Header_init [''seq'', ''time'', ''dura'', ''ev'', ''val'']) (PStr ''ev'') = Inr (PInt 3) \<and>
   Header_getitem (Header_init [''seq'', ''time'', ''dura'', ''ev'', ''val'']) (PStr ''nonexistent'')
     = Inl KeyError \<and>
   Header_getitem (Header_init [''seq'', ''time'', ''dura'', ''ev'', ''val'']) PNone = Inl KeyError"
proof -
  note a = Header_getitem_by_key_type
    [of "PInt 3" "[''seq'', ''time'', ''dura'', ''ev'', ''val'']" "''ev''"]
  note b = Header_getitem_by_key_type
    [of PNone "[''seq'', ''time'', ''dura'', ''ev'', ''val'']" "''nonexistent''"]
  have ev: "names_to_idxs (Header_init [''seq'', ''time'', ''dura'', ''ev'', ''val'']) ''ev'' = Some 3"
    by (simp add: Header_init_def dict_of_pairs_def)
  from a have 1: "Header_getitem (Header_init [''seq'', ''time'', ''dura'', ''ev'', ''val'']) (PInt 3) = Inr (PInt 3)"
    by (simp add: Header_len_def idxs_to_names_init)
  from a have 2: "Header_getitem (Header_init [''seq'', ''time'', ''dura'', ''ev'', ''val'']) (PInt 5) = Inl IndexError"
    by (simp add: Header_len_def idxs_to_names_init)
  from a have 3: "Header_getitem (Header_init [''seq'', ''time'', ''dura'', ''ev'', ''val'']) (PInt (- 1)) = Inl IndexError"
    by simp
  from a ev have 4: "Header_getitem (Header_init [''seq'', ''time'', ''dura'', ''ev'', ''val'']) (PStr ''ev'') = Inr (PInt 3)"
    by auto
  from b have 5: "Header_getitem (Header_init [''seq'', ''time'', ''dura'', ''ev'', ''val'']) (PStr ''nonexistent'') = Inl KeyError"
    by simp
  from b have 6: "Header_getitem (Header_init [''seq'', ''time'', ''dura'', ''ev'', ''val'']) PNone = Inl KeyError"
    by simp
  from 1 2 3 4 5 6 show ?thesis by blast
qed

text \<open>What \<^verbatim>\<open>name_of\<close> computes on an integer index, the tuple's own indexing: it
  raises \<^verbatim>\<open>IndexError\<close> below \<open>-N\<close> and from \<open>N\<close> on, and reads position \<open>N + i\<close> for
  \<open>-N \<le> i < 0\<close>.\<close>

lemma name_of_int:
  "name_of (Header_init ns) (PInt i) =
     (if i < - int (length ns) \<or> int (length ns) \<le> i then Inl IndexError
      else if i < 0 then Inr (ns ! nat (i + int (length ns)))
      else Inr (ns ! nat i))"
  by (auto simp: name_of_def tuple_getitem_def idxs_to_names_init Let_def)

text \<open>
  Claim C5 says that \<^verbatim>\<open>name_of\<close> raises \<^verbatim>\<open>IndexError\<close> for every index outside
  \<open>[0, N)\<close>, every negative index included. The code does not: \<^verbatim>\<open>name_of\<close> has no range
  check of its own, and on the five field names \<^verbatim>\<open>name_of(-1)\<close> returns \<^verbatim>\<open>'val'\<close>, while
  \<^verbatim>\<open>__getitem__\<close> of the same header rejects the index \<open>-1\<close> with \<^verbatim>\<open>IndexError\<close>.
\<close>

theorem name_of_negative_index:
  "name_of (Header_init [''seq'', ''time'', ''dura'', ''ev'', ''val'']) (PInt (- 1)) = Inr ''val'' \<and>
   name_of (Header_init [''seq'', ''time'', ''dura'', ''ev'', ''val'']) (PInt (- 1)) \<noteq> Inl IndexError \<and>
   Header_getitem (Header_init [''seq'', ''time'', ''dura'', ''ev'', ''val'']) (PInt (- 1))
     = Inl IndexError"
  by (simp add: name_of_int Header_getitem_def)

text \<open>
  Claim C8. \<^verbatim>\<open>Header.__init__\<close> accepts any sequence of names, repeated or not, and
  keeps it as given. \<^verbatim>\<open>name_of(i)\<close> is the name at position \<open>i\<close> for every valid
  \<open>i\<close>; the dictionary has exactly the given names as keys, and a name maps to the last
  (largest) position at which it occurs, so \<^verbatim>\<open>index_of\<close> and \<^verbatim>\<open>__getitem__\<close> return
  that position.
\<close>

theorem Header_init_repeats:
  "idxs_to_names (Header_init ns) = ns \<and>
   dom (names_to_idxs (Header_init ns)) = set ns \<and>
   (\<forall>i<length ns. name_of (Header_init ns) (PInt (int i)) = Inr (ns ! i)) \<and>
   (\<forall>i<length ns. (\<forall>j<length ns. ns ! j = ns ! i \<longrightarrow> j \<le> i) \<longrightarrow>
      names_to_idxs (Header_init ns) (ns ! i) = Some (int i) \<and>
      index_of (Header_init ns) (PStr (ns ! i)) = Inr (int i) \<and>
      Header_getitem (Header_init ns) (PStr (ns ! i)) = Inr (PInt (int i)))"
proof (intro conjI allI impI)
  show "idxs_to_names (Header_init ns) = ns" by (rule idxs_to_names_init)
  show "dom (names_to_idxs (Header_init ns)) = set ns" by (rule dom_names_to_idxs)
next
  fix i assume "i < length ns"
  then show "name_of (Header_init ns) (PInt (int i)) = Inr (ns ! i)" by (rule name_of_nat)
next
  fix i assume "i < length ns" "\<forall>j<length ns. ns ! j = ns ! i \<longrightarrow> j \<le> i"
  then have m: "names_to_idxs (Header_init ns) (ns ! i) = Some (int i)"
    by (rule names_to_idxs_last)
  then show "names_to_idxs (Header_init ns) (ns ! i) = Some (int i)" .
  from m show "index_of (Header_init ns) (PStr (ns ! i)) = Inr (int i)"
    by (simp add: index_of_def dict_getitem_def)
  from m show "Header_getitem (Header_init ns) (PStr (ns ! i)) = Inr (PInt (int i))"
    by (simp add: Header_getitem_def dict_getitem_def)
qed

text \<open>C8 on the names \<^verbatim>\<open>('a', 'b', 'a')\<close>: the repeated name resolves to position 2,
  and positions 0 and 2 both read \<^verbatim>\<open>'a'\<close>.\<close>

theorem Header_init_repeats_witness:
  "idxs_to_names (Header_init [''a'', ''b'', ''a'']) = [''a'', ''b'', ''a''] \<and>
   name_of (Header_init [''a'', ''b'', ''a'']) (PInt 0) = Inr ''a'' \<and>
   name_of (Header_init [''a'', ''b'', ''a'']) (PInt 2) = Inr ''a'' \<and>
   index_of (Header_init [''a'', ''b'', ''a'']) (PStr ''a'') = Inr 2 \<and>
   Header_getitem (Header_init [''a'', ''b'', ''a'']) (PStr ''a'') = Inr (PInt 2)"
proof -
  note t = Header_init_repeats [of "[''a'', ''b'', ''a'']"]
  have l0: "(0::nat) < length [''a'', ''b'', ''a'']" by simp
  have l2: "(2::nat) < length [''a'', ''b'', ''a'']" by simp
  have last: "\<forall>j<length [''a'', ''b'', ''a'']. [''a'', ''b'', ''a''] ! j = [''a'', ''b'', ''a''] ! 2 \<longrightarrow> j \<le> 2"
    by simp
  from t have 1: "idxs_to_names (Header_init [''a'', ''b'', ''a'']) = [''a'', ''b'', ''a'']"
    by (rule conjunct1)
  from t [THEN conjunct2, THEN conjunct2, THEN conjunct1, rule_format, OF l0]
  have 2: "name_of (Header_init [''a'', ''b'', ''a'']) (PInt 0) = Inr ''a''" by simp
  from t [THEN conjunct2, THEN conjunct2, THEN conjunct1, rule_format, OF l2]
  have 3: "name_of (Header_init [''a'', ''b'', ''a'']) (PInt 2) = Inr ''a''" by simp
  from t [THEN conjunct2, THEN conjunct2, THEN conjunct2, THEN spec, of 2] l2 last
  have 4: "index_of (Header_init [''a'', ''b'', ''a'']) (PStr ''a'') = Inr 2 \<and>
   Header_getitem (Header_init [''a'', ''b'', ''a'']) (PStr ''a'') = Inr (PInt 2)" by simp
  from 1 2 3 4 show ?thesis by blast
qed

section \<open>Positional and named access to an Event\<close>

lemma Event_getitem_int_key:
  "isinstance_int key \<Longrightarrow> Event_getitem self key = tuple_getitem (astuple self) key"
  by (subst Event_getitem.simps) simp

lemma Event_getitem_str_key:
  "Event_getitem self (PStr s) =
     (case index_of Event_header (PStr s) of
        Inl e \<Rightarrow> Inl e
      | Inr i \<Rightarrow> tuple_getitem (astuple self) (PInt i))"
  by (subst Event_getitem.simps) (simp add: Event_getitem_int_key split: sum.split)

lemma Event_getitem_other_key:
  "\<not> isinstance_int key \<Longrightarrow> \<not> isinstance_str key \<Longrightarrow> Event_getitem self key = Inl KeyError"
  by (subst Event_getitem.simps) simp

lemma index_of_Event_header:
  "index_of Event_header (PStr ''seq'') = Inr 0"
  "index_of Event_header (PStr ''time'') = Inr 1"
  "index_of Event_header (PStr ''dura'') = Inr 2"
  "index_of Event_header (PStr ''ev'') = Inr 3"
  "index_of Event_header (PStr ''val'') = Inr 4"
  by (simp_all add: index_of_def dict_getitem_def Event_header_def EVENT_FIELD_NAMES_def
      Header_init_def dict_of_pairs_def)

text \<open>
  Claim C6, as stated, says that positional access raises \<^verbatim>\<open>IndexError\<close> for every
  integer key outside \<open>[0, 5)\<close>, every negative key included. An integer key goes to the
  tuple's own indexing, which counts a negative index from the end: on the blood-pressure
  event of the docstring, \<^verbatim>\<open>e[-1]\<close> is the value 120.
\<close>

theorem Event_getitem_negative_counterexample:
  "Event_getitem (Event_new (PInt 1) (PStr ''2015-04-25T11:39'') PNone (PStr ''bpSystolic'') (PInt 120))
     (PInt (- 1)) = Inr (PInt 120) \<and>
   Event_getitem (Event_new (PInt 1) (PStr ''2015-04-25T11:39'') PNone (PStr ''bpSystolic'') (PInt 120))
     (PInt (- 1)) \<noteq> Inl IndexError"
  by (simp add: Event_getitem_int_key tuple_getitem_def astuple_def Event_new_def)

text \<open>
  Claim C6, amended. For an integer key \<open>i\<close>, \<^verbatim>\<open>e[i]\<close> raises \<^verbatim>\<open>IndexError\<close> exactly
  when \<open>i < -5\<close> or \<open>i \<ge> 5\<close>; for \<open>0 \<le> i < 5\<close> it returns the \<open>i\<close>-th field of
  \<^verbatim>\<open>(seq, time, dura, ev, val)\<close>, and for \<open>-5 \<le> i < 0\<close> the field at position \<open>i + 5\<close>.
\<close>

theorem Event_getitem_int:
  "Event_getitem e (PInt i) =
     (if i < - 5 \<or> 5 \<le> i then Inl IndexError
      else if i < 0 then Inr (astuple e ! nat (i + 5))
      else Inr (astuple e ! nat i)) \<and>
   astuple e = [seq e, time e, dura e, ev e, val e] \<and>
   Event_getitem e (PInt 0) = Inr (seq e) \<and>
   Event_getitem e (PInt 1) = Inr (time e) \<and>
   Event_getitem e (PInt 2) = Inr (dura e) \<and>
   Event_getitem e (PInt 3) = Inr (ev e) \<and>
   Event_getitem e (PInt 4) = Inr (val e)"
  by (auto simp: Event_getitem_int_key tuple_getitem_def astuple_def Let_def)

text \<open>The amended C6 at the keys 5, -6, -5 and 3.\<close>

theorem Event_getitem_int_witness:
  "Event_getitem (Event_new (PInt 1) (PInt 2) PNone (PStr ''x'') (PInt 120)) (PInt 5) = Inl IndexError \<and>
   Event_getitem (Event_new (PInt 1) (PInt 2) PNone (PStr ''x'') (PInt 120)) (PInt (- 6)) = Inl IndexError \<and>
   Event_getitem (Event_new (PInt 1) (PInt 2) PNone (PStr ''x'') (PInt 120)) (PInt (- 5)) = Inr (PInt 1) \<and>
   Event_getitem (Event_new (PInt 1) (PInt 2) PNone (PStr ''x'') (PInt 120)) (PInt 3) = Inr (PStr ''x'')"
  using Event_getitem_int [of "Event_new (PInt 1) (PInt 2) PNone (PStr ''x'') (PInt 120)" 5]
    Event_getitem_int [of "Event_new (PInt 1) (PInt 2) PNone (PStr ''x'') (PInt 120)" "- 6"]
    Event_getitem_int [of "Event_new (PInt 1) (PInt 2) PNone (PStr ''x'') (PInt 120)" "- 5"]
  by (simp add: Event_new_def)

text \<open>
  Claim C7. For each of the five field names \<open>f\<close>, access by name, access by attribute
  and access by the index that the shared header gives for \<open>f\<close> return the same value
  (and none of them fails).
\<close>

theorem field_access_agrees:
  assumes "f \<in> set EVENT_FIELD_NAMES"
  shows "Event_getitem e (PStr f) = getattr_field e f \<and>
         and_then (index_of (header_of e) (PStr f)) (\<lambda>i. Event_getitem e (PInt i))
           = getattr_field e f \<and>
         getattr_field e f \<noteq> Inl AttributeError"
proof -
  from assms consider "f = ''seq''" | "f = ''time''" | "f = ''dura''" | "f = ''ev''" | "f = ''val''"
    by (auto simp: EVENT_FIELD_NAMES_def)
  then show ?thesis
    by cases
      (simp_all add: Event_getitem_str_key Event_getitem_int_key index_of_Event_header
        header_of_def and_then_def tuple_getitem_def astuple_def getattr_field_def)
qed

text \<open>C7 for the field \<^verbatim>\<open>ev\<close> of a concrete event.\<close>

theorem field_access_agrees_witness:
  "''ev'' \<in> set EVENT_FIELD_NAMES \<and>
   Event_getitem (Event_new (PInt 1) (PInt 2) PNone (PStr ''x'') (PInt 120)) (PStr ''ev'') = Inr (PStr ''x'') \<and>
   getattr_field (Event_new (PInt 1) (PInt 2) PNone (PStr ''x'') (PInt 120)) ''ev'' = Inr (PStr ''x'') \<and>
   and_then (index_of (header_of (Event_new (PInt 1) (PInt 2) PNone (PStr ''x'') (PInt 120))) (PStr ''ev''))
     (\<lambda>i. Event_getitem (Event_new (PInt 1) (PInt 2) PNone (PStr ''x'') (PInt 120)) (PInt i))
     = Inr (PStr ''x'')"
proof -
  have m: "''ev'' \<in> set EVENT_FIELD_NAMES" by (simp add: EVENT_FIELD_NAMES_def)
  have g: "getattr_field (Event_new (PInt 1) (PInt 2) PNone (PStr ''x'') (PInt 120)) ''ev'' = Inr (PStr ''x'')"
    by (simp add: getattr_field_def Event_new_def)
  from field_access_agrees [OF m, of "Event_new (PInt 1) (PInt 2) PNone (PStr ''x'') (PInt 120)"] m g
  show ?thesis by simp
qed

section \<open>Partial matching\<close>

lemma valuepred_matches_value_if:
  "valuepred_matches_value h c v =
     (if c = PAny then Inr (PBool True)
      else if py_eq c v then Inr (PBool True)
      else if callable c then call h c v
      else Inr (PBool False))"
  by (simp add: valuepred_matches_value_def py_or_def py_and_def)

lemma returns_truthy_valuepred:
  "returns_truthy (valuepred_matches_value h c v) = satisfied h c v"
  by (simp add: valuepred_matches_value_if satisfied_def)

lemma returns_truthy_py_and:
  "returns_truthy (py_and a b) = (returns_truthy a \<and> returns_truthy b)"
  by (cases a) (simp_all add: py_and_def)

lemma returns_truthy_matches:
  "returns_truthy (matches h e s t d c v) =
     (satisfied h s (seq e) \<and> satisfied h t (time e) \<and> satisfied h d (dura e) \<and>
      satisfied h c (ev e) \<and> satisfied h v (val e))"
  by (auto simp: matches_def returns_truthy_py_and returns_truthy_valuepred)

lemma satisfied_by_kind_eq_first_iff:
  "satisfied_by_kind_eq_first h c v = satisfied h c v"
  by (cases c) (auto simp: satisfied_by_kind_eq_first_def satisfied_def)





text \<open>With the wildcard everywhere but at \<^verbatim>\<open>seq\<close>, the last operand of the chain, a true
  result of the comparison there is what \<^verbatim>\<open>matches\<close> returns, boolean or not.\<close>

lemma matches_with_returns_eq_operand:
  "c \<noteq> PAny \<Longrightarrow> eq c (seq e) = Inr x \<Longrightarrow> truthy x \<Longrightarrow>
     matches_with eq h e c PAny PAny PAny PAny = Inr x"
  by (simp add: matches_with_def valuepred_matches_value_with_def py_or_def py_and_def)


text \<open>
  Claim C1, as stated, sorts criteria into three kinds and says that a predicate
  criterion (a callable) is satisfied iff its call on the field returns true. The code
  tests equality before it calls: with the same function object \<^verbatim>\<open>f\<close> as the value of the
  field \<^verbatim>\<open>val\<close> and as the criterion for it, \<^verbatim>\<open>f == f\<close> holds and
  \<^verbatim>\<open>Event(val=f).matches(val=f)\<close> is \<^verbatim>\<open>True\<close>, although \<^verbatim>\<open>f(f)\<close> returns
  \<^verbatim>\<open>False\<close>.
\<close>

theorem matches_by_kind_counterexample:
  "matches (const_env (PBool False)) (Event_new PNone PNone PNone PNone (PFun 0))
     PAny PAny PAny PAny (PFun 0) = Inr (PBool True) \<and>
   call (const_env (PBool False)) (PFun 0) (PFun 0) = Inr (PBool False) \<and>
   \<not> satisfied_by_kind (const_env (PBool False)) (PFun 0)
       (val (Event_new PNone PNone PNone PNone (PFun 0))) \<and>
   \<not> (returns_truthy (matches (const_env (PBool False)) (Event_new PNone PNone PNone PNone (PFun 0))
          PAny PAny PAny PAny (PFun 0)) \<longleftrightarrow>
       satisfied_by_kind (const_env (PBool False)) PAny (seq (Event_new PNone PNone PNone PNone (PFun 0))) \<and>
       satisfied_by_kind (const_env (PBool False)) PAny (time (Event_new PNone PNone PNone PNone (PFun 0))) \<and>
       satisfied_by_kind (const_env (PBool False)) PAny (dura (Event_new PNone PNone PNone PNone (PFun 0))) \<and>
       satisfied_by_kind (const_env (PBool False)) PAny (ev (Event_new PNone PNone PNone PNone (PFun 0))) \<and>
       satisfied_by_kind (const_env (PBool False)) (PFun 0) (val (Event_new PNone PNone PNone PNone (PFun 0))))"
  by (simp add: matches_def valuepred_matches_value_if py_and_def const_env_def Event_new_def
      satisfied_by_kind_def)

text \<open>
  Claim C1, amended. \<^verbatim>\<open>matches\<close> returns a true value iff each of the five criteria is
  satisfied by its field, where the wildcard is always satisfied, a criterion that is not
  callable is satisfied iff it equals the field, and a callable criterion is satisfied iff
  it equals the field or its call on the field returns a true value. With all five
  criteria left as the wildcard, \<^verbatim>\<open>matches\<close> returns \<^verbatim>\<open>True\<close>.
\<close>

theorem matches_iff_satisfied:
  "(returns_truthy (matches h e s t d c v) \<longleftrightarrow>
      satisfied_by_kind_eq_first h s (seq e) \<and>
      satisfied_by_kind_eq_first h t (time e) \<and>
      satisfied_by_kind_eq_first h d (dura e) \<and>
      satisfied_by_kind_eq_first h c (ev e) \<and>
      satisfied_by_kind_eq_first h v (val e)) \<and>
   matches h e PAny PAny PAny PAny PAny = Inr (PBool True)"
proof
  show "returns_truthy (matches h e s t d c v) \<longleftrightarrow>
      satisfied_by_kind_eq_first h s (seq e) \<and>
      satisfied_by_kind_eq_first h t (time e) \<and>
      satisfied_by_kind_eq_first h d (dura e) \<and>
      satisfied_by_kind_eq_first h c (ev e) \<and>
      satisfied_by_kind_eq_first h v (val e)"
    by (simp only: returns_truthy_matches satisfied_by_kind_eq_first_iff)
  show "matches h e PAny PAny PAny PAny PAny = Inr (PBool True)"
    by (simp add: matches_def valuepred_matches_value_if py_and_def)
qed

text \<open>The amended C1 on the examples of the specification: equality on \<^verbatim>\<open>ev\<close> and
  \<^verbatim>\<open>val\<close>, a different \<^verbatim>\<open>ev\<close>, and a predicate on \<^verbatim>\<open>val\<close> that holds and one that
  does not.\<close>

theorem matches_iff_satisfied_witness:
  "returns_truthy (matches (const_env (PBool True))
      (Event_new (PInt 1) (PStr ''2015-04-25T11:39'') PNone (PStr ''bpSystolic'') (PInt 120))
      PAny PAny PAny (PStr ''bpSystolic'') (PInt 120)) \<and>
   \<not> returns_truthy (matches (const_env (PBool True))
      (Event_new (PInt 1) (PStr ''2015-04-25T11:39'') PNone (PStr ''bpSystolic'') (PInt 120))
      PAny PAny PAny (PStr ''bpDiastolic'') PAny) \<and>
   returns_truthy (matches (const_env (PBool True))
      (Event_new (PInt 1) (PStr ''2015-04-25T11:39'') PNone (PStr ''bpSystolic'') (PInt 120))
      PAny PAny PAny PAny (PFun 0)) \<and>
   \<not> returns_truthy (matches (const_env (PBool False))
      (Event_new (PInt 1) (PStr ''2015-04-25T11:39'') PNone (PStr ''bpSystolic'') (PInt 120))
      PAny PAny PAny PAny (PFun 0))"
  using matches_iff_satisfied [of "const_env (PBool True)"
      "Event_new (PInt 1) (PStr ''2015-04-25T11:39'') PNone (PStr ''bpSystolic'') (PInt 120)"
      PAny PAny PAny "PStr ''bpSystolic''" "PInt 120"]
    matches_iff_satisfied [of "const_env (PBool True)"
      "Event_new (PInt 1) (PStr ''2015-04-25T11:39'') PNone (PStr ''bpSystolic'') (PInt 120)"
      PAny PAny PAny "PStr ''bpDiastolic''" PAny]
    matches_iff_satisfied [of "const_env (PBool True)"
      "Event_new (PInt 1) (PStr ''2015-04-25T11:39'') PNone (PStr ''bpSystolic'') (PInt 120)"
      PAny PAny PAny PAny "PFun 0"]
    matches_iff_satisfied [of "const_env (PBool False)"
      "Event_new (PInt 1) (PStr ''2015-04-25T11:39'') PNone (PStr ''bpSystolic'') (PInt 120)"
      PAny PAny PAny PAny "PFun 0"]
  by (simp add: satisfied_by_kind_eq_first_def const_env_def Event_new_def)




text \<open>
  Claim C10. \<^verbatim>\<open>_valuepred_matches_value\<close> probes the criterion in a fixed order: the
  wildcard gives \<^verbatim>\<open>True\<close>; otherwise a criterion equal to the value gives \<^verbatim>\<open>True\<close>;
  otherwise a callable criterion gives whatever its call on the value gives; otherwise
  \<^verbatim>\<open>False\<close>. So the test is true iff the criterion is the wildcard, or equals the value,
  or is callable and its call returns a true value. A callable criterion that equals the
  value is not called (the result is \<^verbatim>\<open>True\<close> even where every call would raise), and a
  callable criterion that differs from the value is called, whatever it was meant to be.
\<close>

theorem valuepred_matches_value_probing:
  "valuepred_matches_value h c v =
     (if c = PAny then Inr (PBool True)
      else if py_eq c v then Inr (PBool True)
      else if callable c then call h c v
      else Inr (PBool False)) \<and>
   (returns_truthy (valuepred_matches_value h c v) \<longleftrightarrow>
      c = PAny \<or> py_eq c v \<or> (callable c \<and> returns_truthy (call h c v))) \<and>
   (callable c \<and> py_eq c v \<longrightarrow>
      valuepred_matches_value raising_env c v = Inr (PBool True)) \<and>
   (callable c \<and> \<not> py_eq c v \<longrightarrow> valuepred_matches_value h c v = call h c v)"
proof (intro conjI impI)
  show "valuepred_matches_value h c v =
     (if c = PAny then Inr (PBool True)
      else if py_eq c v then Inr (PBool True)
      else if callable c then call h c v
      else Inr (PBool False))"
    by (rule valuepred_matches_value_if)
  show "returns_truthy (valuepred_matches_value h c v) \<longleftrightarrow>
      c = PAny \<or> py_eq c v \<or> (callable c \<and> returns_truthy (call h c v))"
    by (simp only: returns_truthy_valuepred satisfied_def)
next
  assume "callable c \<and> py_eq c v"
  then show "valuepred_matches_value raising_env c v = Inr (PBool True)"
    by (simp add: valuepred_matches_value_if)
next
  assume "callable c \<and> \<not> py_eq c v"
  then show "valuepred_matches_value h c v = call h c v"
    by (cases c) (simp_all add: valuepred_matches_value_if)
qed

text \<open>C10 on a function object compared with itself and with another function object, in
  an environment where every call raises and in one where every call returns 7.\<close>

theorem valuepred_matches_value_probing_witness:
  "callable (PFun 3) \<and> py_eq (PFun 3) (PFun 3) \<and>
   call raising_env (PFun 3) (PFun 3) = Inl TypeError \<and>
   valuepred_matches_value raising_env (PFun 3) (PFun 3) = Inr (PBool True) \<and>
   callable (PFun 3) \<and> \<not> py_eq (PFun 3) (PFun 4) \<and>
   valuepred_matches_value (const_env (PInt 7)) (PFun 3) (PFun 4) = Inr (PInt 7) \<and>
   valuepred_matches_value raising_env (PFun 3) (PFun 4) = Inl TypeError \<and>
   valuepred_matches_value raising_env (PInt 5) (PInt 6) = Inr (PBool False)"
proof -
  have a: "callable (PFun 3) \<and> py_eq (PFun 3) (PFun 3)" by simp
  have b: "callable (PFun 3) \<and> \<not> py_eq (PFun 3) (PFun 4)" by simp
  note t1 = valuepred_matches_value_probing [of raising_env "PFun 3" "PFun 3"]
  note t2 = valuepred_matches_value_probing [of "const_env (PInt 7)" "PFun 3" "PFun 4"]
  note t3 = valuepred_matches_value_probing [of raising_env "PFun 3" "PFun 4"]
  note t4 = valuepred_matches_value_probing [of raising_env "PInt 5" "PInt 6"]
  from t1 a have 1: "valuepred_matches_value raising_env (PFun 3) (PFun 3) = Inr (PBool True)"
    by blast
  from t2 b have 2: "valuepred_matches_value (const_env (PInt 7)) (PFun 3) (PFun 4) = Inr (PInt 7)"
    by (simp add: const_env_def)
  from t3 b have 3: "valuepred_matches_value raising_env (PFun 3) (PFun 4) = Inl TypeError"
    by (simp add: raising_env_def)
  from t4 have 4: "valuepred_matches_value raising_env (PInt 5) (PInt 6) = Inr (PBool False)"
    by simp
  have 5: "call raising_env (PFun 3) (PFun 3) = Inl TypeError" by (simp add: raising_env_def)
  from a b 1 2 3 4 5 show ?thesis by blast
qed

section \<open>Ordering by sort key\<close>

lemma Event_sort_key_fields:
  "Event_sort_key a =
     [universal_sort_key (seq a), universal_sort_key (time a), universal_sort_key (dura a),
      universal_sort_key (ev a), universal_sort_key (val a)]"
  by (simp add: Event_sort_key_def iterable_sort_key_def astuple_def)

text \<open>
  Claim C2. For any two events exactly one of \<open>key a < key b\<close>, \<open>key a = key b\<close>,
  \<open>key a > key b\<close> holds; events with the same field tuple have the same key; keys are
  compared field by field in the order \<^verbatim>\<open>seq, time, dura, ev, val\<close>, a later field
  deciding only when all earlier ones tie; and sorting
  \<^verbatim>\<open>[Event(seq=2,time=5), Event(seq=1,time=9), Event(seq=1,time=3)]\<close> by key gives
  \<^verbatim>\<open>[Event(seq=1,time=3), Event(seq=1,time=9), Event(seq=2,time=5)]\<close>.
\<close>

theorem Event_sort_key_total:
  "((Event_sort_key a < Event_sort_key b \<and> Event_sort_key a \<noteq> Event_sort_key b \<and>
       \<not> Event_sort_key b < Event_sort_key a) \<or>
    (Event_sort_key a = Event_sort_key b \<and> \<not> Event_sort_key a < Event_sort_key b \<and>
       \<not> Event_sort_key b < Event_sort_key a) \<or>
    (Event_sort_key b < Event_sort_key a \<and> Event_sort_key a \<noteq> Event_sort_key b \<and>
       \<not> Event_sort_key a < Event_sort_key b)) \<and>
   (astuple a = astuple b \<longrightarrow> Event_sort_key a = Event_sort_key b) \<and>
   (Event_sort_key a < Event_sort_key b \<longleftrightarrow>
      universal_sort_key (seq a) < universal_sort_key (seq b) \<or>
      universal_sort_key (seq a) = universal_sort_key (seq b) \<and>
      (universal_sort_key (time a) < universal_sort_key (time b) \<or>
       universal_sort_key (time a) = universal_sort_key (time b) \<and>
       (universal_sort_key (dura a) < universal_sort_key (dura b) \<or>
        universal_sort_key (dura a) = universal_sort_key (dura b) \<and>
        (universal_sort_key (ev a) < universal_sort_key (ev b) \<or>
         universal_sort_key (ev a) = universal_sort_key (ev b) \<and>
         universal_sort_key (val a) < universal_sort_key (val b))))) \<and>
   sorted_by_sort_key
     [Event_new (PInt 2) (PInt 5) PNone PNone PNone,
      Event_new (PInt 1) (PInt 9) PNone PNone PNone,
      Event_new (PInt 1) (PInt 3) PNone PNone PNone] =
     [Event_new (PInt 1) (PInt 3) PNone PNone PNone,
      Event_new (PInt 1) (PInt 9) PNone PNone PNone,
      Event_new (PInt 2) (PInt 5) PNone PNone PNone]"
proof (intro conjI impI)
  show "(Event_sort_key a < Event_sort_key b \<and> Event_sort_key a \<noteq> Event_sort_key b \<and>
       \<not> Event_sort_key b < Event_sort_key a) \<or>
    (Event_sort_key a = Event_sort_key b \<and> \<not> Event_sort_key a < Event_sort_key b \<and>
       \<not> Event_sort_key b < Event_sort_key a) \<or>
    (Event_sort_key b < Event_sort_key a \<and> Event_sort_key a \<noteq> Event_sort_key b \<and>
       \<not> Event_sort_key a < Event_sort_key b)"
    by (cases "Event_sort_key a" "Event_sort_key b" rule: linorder_cases) auto
next
  assume "astuple a = astuple b"
  then show "Event_sort_key a = Event_sort_key b" by (simp add: Event_sort_key_def)
next
  show "Event_sort_key a < Event_sort_key b \<longleftrightarrow>
      universal_sort_key (seq a) < universal_sort_key (seq b) \<or>
      universal_sort_key (seq a) = universal_sort_key (seq b) \<and>
      (universal_sort_key (time a) < universal_sort_key (time b) \<or>
       universal_sort_key (time a) = universal_sort_key (time b) \<and>
       (universal_sort_key (dura a) < universal_sort_key (dura b) \<or>
        universal_sort_key (dura a) = universal_sort_key (dura b) \<and>
        (universal_sort_key (ev a) < universal_sort_key (ev b) \<or>
         universal_sort_key (ev a) = universal_sort_key (ev b) \<and>
         universal_sort_key (val a) < universal_sort_key (val b))))"
    by (simp add: Event_sort_key_fields)
next
  show "sorted_by_sort_key
     [Event_new (PInt 2) (PInt 5) PNone PNone PNone,
      Event_new (PInt 1) (PInt 9) PNone PNone PNone,
      Event_new (PInt 1) (PInt 3) PNone PNone PNone] =
     [Event_new (PInt 1) (PInt 3) PNone PNone PNone,
      Event_new (PInt 1) (PInt 9) PNone PNone PNone,
      Event_new (PInt 2) (PInt 5) PNone PNone PNone]"
    by (simp add: sorted_by_sort_key_def Event_sort_key_fields Event_new_def)
qed

text \<open>C2 on the three events of the example: equal tuples give equal keys, and the keys
  of different events are strictly ordered one way only.\<close>

theorem Event_sort_key_total_witness:
  "astuple (Event_new (PInt 1) (PInt 9) PNone PNone PNone)
     = astuple (Event_new (PInt 1) (PInt 9) PNone PNone PNone) \<and>
   Event_sort_key (Event_new (PInt 1) (PInt 9) PNone PNone PNone)
     = Event_sort_key (Event_new (PInt 1) (PInt 9) PNone PNone PNone) \<and>
   Event_sort_key (Event_new (PInt 1) (PInt 9) PNone PNone PNone)
     < Event_sort_key (Event_new (PInt 2) (PInt 5) PNone PNone PNone) \<and>
   \<not> Event_sort_key (Event_new (PInt 2) (PInt 5) PNone PNone PNone)
     < Event_sort_key (Event_new (PInt 1) (PInt 9) PNone PNone PNone) \<and>
   Event_sort_key (Event_new (PInt 1) (PInt 3) PNone PNone PNone)
     < Event_sort_key (Event_new (PInt 1) (PInt 9) PNone PNone PNone)"
proof -
  let ?a = "Event_new (PInt 1) (PInt 9) PNone PNone PNone"
  let ?b = "Event_new (PInt 2) (PInt 5) PNone PNone PNone"
  let ?c = "Event_new (PInt 1) (PInt 3) PNone PNone PNone"
  have e: "astuple ?a = astuple ?a" by simp
  from Event_sort_key_total [of ?a ?a] e
  have 1: "Event_sort_key ?a = Event_sort_key ?a" by blast
  from Event_sort_key_total [of ?a ?b]
  have 2: "Event_sort_key ?a < Event_sort_key ?b" by (simp add: Event_new_def)
  from Event_sort_key_total [of ?b ?a]
  have 3: "\<not> Event_sort_key ?b < Event_sort_key ?a" by (simp add: Event_new_def)
  from Event_sort_key_total [of ?c ?a]
  have 4: "Event_sort_key ?c < Event_sort_key ?a" by (simp add: Event_new_def)
  from e 1 2 3 4 show ?thesis by blast
qed

end
